theory Spec2Isabelle
  imports Complex_Main
begin

section \<open>Bisection solver for polynomials (Bisection.py)\<close>

text \<open>
  The program works on Python floats. They are modelled as the real numbers: the
  coefficients, the bounds \<open>a\<close>, \<open>b\<close>, the tolerance and every function value are
  \<^typ>\<open>real\<close>, so rounding, overflow, underflow and NaN are outside the model. Python's
  unbounded integers (\<open>max_iter\<close>, the loop index \<open>i\<close>) are \<^typ>\<open>int\<close>.
\<close>

subsection \<open>The polynomial evaluator\<close>

text \<open>
  Modelled from the spec: \<open>np.polyval\<close> is NumPy's function, which is not part of the
  sources. The specification (section 4.1) asks for Horner-style evaluation of the
  coefficients in descending order; NumPy's loop is
  \<^verbatim>\<open>y = 0; for pv in p: y = y * x + pv\<close>.
\<close>

definition polyval :: "real list \<Rightarrow> real \<Rightarrow> real" where
  "polyval p x = foldl (\<lambda>y pv. y * x + pv) 0 p"

text \<open>\<^verbatim>\<open>def evaluate_poly(coefficients, x): return np.polyval(coefficients, x)\<close>\<close>

definition evaluate_poly :: "real list \<Rightarrow> real \<Rightarrow> real" where
  "evaluate_poly coefficients x = polyval coefficients x"

subsection \<open>What the solver prints\<close>

text \<open>
  Each pass of the loop prints one table row with the values of
  \<open>i\<close>, \<open>a\<close>, \<open>b\<close>, \<open>c\<close>, \<open>fc\<close> and \<open>error\<close> (line 39). The rows are kept as
  values, before formatting. The list \<open>iteration_data\<close> of the source holds the pairs
  \<open>(c, fc)\<close> of the same rows and is never read, so it is not modelled separately.
\<close>

record iter_row =
  row_i :: int
  row_a :: real
  row_b :: real
  row_c :: real
  row_fc :: real
  row_error :: real

text \<open>
  The standard output of one call: either the error message with \<open>f(a)\<close> and \<open>f(b)\<close>
  (lines 20-21), or the table header (lines 24-25) followed by the rows.
\<close>

datatype printed = Bracket_failure real real | Table "iter_row list"

fun rows :: "printed \<Rightarrow> iter_row list" where
  "rows (Bracket_failure fa fb) = []"
| "rows (Table rs) = rs"

subsection \<open>The bisection loop\<close>

text \<open>Line 43: \<^verbatim>\<open>abs(fc) < tol or (error < tol and i > 1)\<close>, read off a row.\<close>

definition converged :: "real \<Rightarrow> iter_row \<Rightarrow> bool" where
  "converged tol r \<longleftrightarrow> \<bar>row_fc r\<bar> < tol \<or> (row_error r < tol \<and> row_i r > 1)"

text \<open>
  Lines 47-50: \<open>f\<close> is evaluated again at the current \<open>a\<close>; the pair returned is the
  new \<open>(a, b)\<close>.
\<close>

definition narrow :: "real list \<Rightarrow> real \<Rightarrow> real \<Rightarrow> real \<Rightarrow> real \<Rightarrow> real \<times> real" where
  "narrow coeffs a b c fc = (if evaluate_poly coeffs a * fc < 0 then (a, c) else (c, b))"

text \<open>
  Lines 30-52: \<^verbatim>\<open>for i in range(1, max_iter + 1)\<close> as a recursion on \<open>i\<close>, with
  the loop variables \<open>a\<close>, \<open>b\<close>, \<open>c\<close> as arguments. The result is the returned pair
  and the rows printed from iteration \<open>i\<close> on. When the range is used up the function
  returns \<open>(c, max_iter)\<close> (line 52).
\<close>

function bisect_loop ::
  "real list \<Rightarrow> real \<Rightarrow> int \<Rightarrow> int \<Rightarrow> real \<Rightarrow> real \<Rightarrow> real \<Rightarrow> (real \<times> int) \<times> iter_row list" where
  "bisect_loop coeffs tol max_iter i a b c =
     (if max_iter < i then ((c, max_iter), [])
      else
        let prev_c = c;
            c = (a + b) / 2;
            fc = evaluate_poly coeffs c;
            error = (if i > 1 then \<bar>c - prev_c\<bar> else \<bar>b - a\<bar>);
            row = \<lparr>row_i = i, row_a = a, row_b = b, row_c = c, row_fc = fc, row_error = error\<rparr>
        in if converged tol row then ((c, i), [row])
           else
             let ab = narrow coeffs a b c fc;
                 rest = bisect_loop coeffs tol max_iter (i + 1) (fst ab) (snd ab) c
             in (fst rest, row # snd rest))"
  by pat_completeness auto
termination
  by (relation "measure (\<lambda>(coeffs, tol, max_iter, i, a, b, c). nat (max_iter + 1 - i))") auto

declare bisect_loop.simps [simp del]

text \<open>
  Lines 11-52. The result is the returned tuple, \<open>(None, None)\<close> or \<open>(c, i)\<close>, and
  what was printed.
\<close>

definition bisection_method ::
  "real list \<Rightarrow> real \<Rightarrow> real \<Rightarrow> real \<Rightarrow> int \<Rightarrow> (real option \<times> int option) \<times> printed" where
  "bisection_method coeffs a b tol max_iter =
     (let fa = evaluate_poly coeffs a;
          fb = evaluate_poly coeffs b
      in if fa * fb \<ge> 0 then ((None, None), Bracket_failure fa fb)
         else
           let c = a;
               res = bisect_loop coeffs tol max_iter 1 a b c
           in ((Some (fst (fst res)), Some (snd (fst res))), Table (snd res)))"

text \<open>
  The row printed by iteration \<open>i\<close> when the loop variables are \<open>a\<close>, \<open>b\<close> and
  \<open>c\<close> (the previous midpoint) on entry: lines 31-39 of the loop body in one term.
\<close>

definition row_at :: "real list \<Rightarrow> int \<Rightarrow> real \<Rightarrow> real \<Rightarrow> real \<Rightarrow> iter_row" where
  "row_at coeffs i a b c =
     \<lparr>row_i = i, row_a = a, row_b = b, row_c = (a + b) / 2,
      row_fc = evaluate_poly coeffs ((a + b) / 2),
      row_error = (if i > 1 then \<bar>(a + b) / 2 - c\<bar> else \<bar>b - a\<bar>)\<rparr>"


section \<open>Properties of the loop\<close>

subsection \<open>One pass of the loop\<close>

lemma loop_done: "max_iter < i \<Longrightarrow> bisect_loop coeffs tol max_iter i a b c = ((c, max_iter), [])"
  by (simp add: bisect_loop.simps)

lemma loop_conv:
  "i \<le> max_iter \<Longrightarrow> converged tol (row_at coeffs i a b c) \<Longrightarrow>
   bisect_loop coeffs tol max_iter i a b c = (((a + b) / 2, i), [row_at coeffs i a b c])"
  by (simp add: bisect_loop.simps[of coeffs tol max_iter i] row_at_def Let_def)

lemma loop_step:
  "i \<le> max_iter \<Longrightarrow> \<not> converged tol (row_at coeffs i a b c) \<Longrightarrow>
   bisect_loop coeffs tol max_iter i a b c =
     (let ab = narrow coeffs a b ((a + b) / 2) (evaluate_poly coeffs ((a + b) / 2));
          rest = bisect_loop coeffs tol max_iter (i + 1) (fst ab) (snd ab) ((a + b) / 2)
      in (fst rest, row_at coeffs i a b c # snd rest))"
  by (simp add: bisect_loop.simps[of coeffs tol max_iter i] row_at_def Let_def)

lemma loop_induct [consumes 0, case_names finished conv step]:
  assumes d: "\<And>i a b c. max_iter < i \<Longrightarrow> P i a b c"
    and cv: "\<And>i a b c. i \<le> max_iter \<Longrightarrow> converged tol (row_at coeffs i a b c) \<Longrightarrow> P i a b c"
    and st: "\<And>i a b c. i \<le> max_iter \<Longrightarrow> \<not> converged tol (row_at coeffs i a b c) \<Longrightarrow>
               P (i + 1) (fst (narrow coeffs a b ((a + b) / 2) (evaluate_poly coeffs ((a + b) / 2))))
                 (snd (narrow coeffs a b ((a + b) / 2) (evaluate_poly coeffs ((a + b) / 2))))
                 ((a + b) / 2) \<Longrightarrow> P i a b c"
  shows "P i a b c"
proof (induction "nat (max_iter + 1 - i)" arbitrary: i a b c)
  case (0 i a b c)
  then have "max_iter < i" by simp
  then show ?case by (rule d)
next
  case (Suc n i a b c)
  then have le: "i \<le> max_iter" by simp
  show ?case
  proof (cases "converged tol (row_at coeffs i a b c)")
    case True
    with le show ?thesis by (rule cv)
  next
    case False
    from Suc.hyps(2) have "n = nat (max_iter + 1 - (i + 1))" by simp
    then have "P (i + 1) (fst (narrow coeffs a b ((a + b) / 2) (evaluate_poly coeffs ((a + b) / 2))))
                 (snd (narrow coeffs a b ((a + b) / 2) (evaluate_poly coeffs ((a + b) / 2))))
                 ((a + b) / 2)"
      by (rule Suc.hyps(1))
    with le False show ?thesis by (rule st)
  qed
qed


lemma row_at_sel [simp]:
  "row_i (row_at coeffs i a b c) = i"
  "row_a (row_at coeffs i a b c) = a"
  "row_b (row_at coeffs i a b c) = b"
  "row_c (row_at coeffs i a b c) = (a + b) / 2"
  "row_fc (row_at coeffs i a b c) = evaluate_poly coeffs ((a + b) / 2)"
  "row_error (row_at coeffs i a b c) = (if i > 1 then \<bar>(a + b) / 2 - c\<bar> else \<bar>b - a\<bar>)"
  by (simp_all add: row_at_def)

lemma rows_index:
  "k < length (snd (bisect_loop coeffs tol max_iter i a b c)) \<Longrightarrow>
   row_i (snd (bisect_loop coeffs tol max_iter i a b c) ! k) = i + int k"
proof (induction i a b c arbitrary: k rule: loop_induct[where max_iter = max_iter and tol = tol and coeffs = coeffs])
  case (finished i a b c)
  then show ?case by (simp add: loop_done)
next
  case (conv i a b c)
  then show ?case by (simp add: loop_conv)
next
  case (step i a b c)
  then show ?case by (cases k) (simp_all add: loop_step Let_def)
qed

lemma rows_empty_iff:
  "snd (bisect_loop coeffs tol max_iter i a b c) = [] \<longleftrightarrow> max_iter < i"
  by (cases "max_iter < i"; cases "converged tol (row_at coeffs i a b c)")
     (simp_all add: loop_done loop_conv loop_step Let_def)

lemma rows_length:
  "int (length (snd (bisect_loop coeffs tol max_iter i a b c))) \<le> max 0 (max_iter + 1 - i)"
proof (induction i a b c rule: loop_induct[where max_iter = max_iter and tol = tol and coeffs = coeffs])
  case (finished i a b c)
  then show ?case by (simp add: loop_done)
next
  case (conv i a b c)
  then show ?case by (simp add: loop_conv)
next
  case (step i a b c)
  then show ?case by (simp add: loop_step Let_def)
qed

lemma rows_mid:
  "r \<in> set (snd (bisect_loop coeffs tol max_iter i a b c)) \<Longrightarrow>
   row_c r = (row_a r + row_b r) / 2 \<and> row_fc r = evaluate_poly coeffs (row_c r)"
proof (induction i a b c rule: loop_induct[where max_iter = max_iter and tol = tol and coeffs = coeffs])
  case (finished i a b c)
  then show ?case by (simp add: loop_done)
next
  case (conv i a b c)
  then show ?case by (simp add: loop_conv)
next
  case (step i a b c)
  then show ?case by (auto simp add: loop_step Let_def)
qed

lemma rows_first:
  "i \<le> max_iter \<Longrightarrow> snd (bisect_loop coeffs tol max_iter i a b c) ! 0 = row_at coeffs i a b c"
  by (cases "converged tol (row_at coeffs i a b c)") (simp_all add: loop_conv loop_step Let_def)

lemma rows_next:
  "Suc k < length (snd (bisect_loop coeffs tol max_iter i a b c)) \<Longrightarrow>
   (row_a (snd (bisect_loop coeffs tol max_iter i a b c) ! Suc k),
    row_b (snd (bisect_loop coeffs tol max_iter i a b c) ! Suc k)) =
     narrow coeffs (row_a (snd (bisect_loop coeffs tol max_iter i a b c) ! k))
       (row_b (snd (bisect_loop coeffs tol max_iter i a b c) ! k))
       (row_c (snd (bisect_loop coeffs tol max_iter i a b c) ! k))
       (row_fc (snd (bisect_loop coeffs tol max_iter i a b c) ! k)) \<and>
   (1 \<le> i \<longrightarrow> row_error (snd (bisect_loop coeffs tol max_iter i a b c) ! Suc k) =
      \<bar>row_c (snd (bisect_loop coeffs tol max_iter i a b c) ! Suc k) -
       row_c (snd (bisect_loop coeffs tol max_iter i a b c) ! k)\<bar>)"
proof (induction i a b c arbitrary: k rule: loop_induct[where max_iter = max_iter and tol = tol and coeffs = coeffs])
  case (finished i a b c)
  then show ?case by (simp add: loop_done)
next
  case (conv i a b c)
  then show ?case by (simp add: loop_conv)
next
  case (step i a b c)
  let ?c = "(a + b) / 2"
  let ?ab = "narrow coeffs a b ?c (evaluate_poly coeffs ?c)"
  let ?rest = "snd (bisect_loop coeffs tol max_iter (i + 1) (fst ?ab) (snd ?ab) ?c)"
  have unf: "snd (bisect_loop coeffs tol max_iter i a b c) = row_at coeffs i a b c # ?rest"
    using step.hyps by (simp add: loop_step Let_def)
  show ?case
  proof (cases k)
    case 0
    with step.prems have ne: "?rest \<noteq> []" unfolding unf by auto
    then have "i + 1 \<le> max_iter" using rows_empty_iff[of coeffs tol max_iter "i + 1"] by auto
    then have "?rest ! 0 = row_at coeffs (i + 1) (fst ?ab) (snd ?ab) ?c" by (rule rows_first)
    with 0 show ?thesis unfolding unf by simp
  next
    case (Suc k')
    with step.prems have "Suc k' < length ?rest" unfolding unf by simp
    from step.IH[OF this] Suc show ?thesis unfolding unf by simp
  qed
qed

lemma rows_not_converged:
  "Suc k < length (snd (bisect_loop coeffs tol max_iter i a b c)) \<Longrightarrow>
   \<not> converged tol (snd (bisect_loop coeffs tol max_iter i a b c) ! k)"
proof (induction i a b c arbitrary: k rule: loop_induct[where max_iter = max_iter and tol = tol and coeffs = coeffs])
  case (finished i a b c)
  then show ?case by (simp add: loop_done)
next
  case (conv i a b c)
  then show ?case by (simp add: loop_conv)
next
  case (step i a b c)
  then show ?case by (cases k) (simp_all add: loop_step Let_def)
qed

lemma loop_result:
  "fst (bisect_loop coeffs tol max_iter i a b c) =
     (let rs = snd (bisect_loop coeffs tol max_iter i a b c)
      in if rs = [] then (c, max_iter)
         else (row_c (last rs), if converged tol (last rs) then row_i (last rs) else max_iter))"
proof (induction i a b c rule: loop_induct[where max_iter = max_iter and tol = tol and coeffs = coeffs])
  case (finished i a b c)
  then show ?case by (simp add: loop_done)
next
  case (conv i a b c)
  then show ?case by (simp add: loop_conv)
next
  case (step i a b c)
  then show ?case by (simp add: loop_step Let_def)
qed

lemma rows_exhausted:
  "snd (bisect_loop coeffs tol max_iter i a b c) \<noteq> [] \<Longrightarrow>
   \<not> converged tol (last (snd (bisect_loop coeffs tol max_iter i a b c))) \<Longrightarrow>
   row_i (last (snd (bisect_loop coeffs tol max_iter i a b c))) = max_iter"
proof (induction i a b c rule: loop_induct[where max_iter = max_iter and tol = tol and coeffs = coeffs])
  case (finished i a b c)
  then show ?case by (simp add: loop_done)
next
  case (conv i a b c)
  then show ?case by (simp add: loop_conv)
next
  case (step i a b c)
  let ?c = "(a + b) / 2"
  let ?ab = "narrow coeffs a b ?c (evaluate_poly coeffs ?c)"
  let ?rest = "snd (bisect_loop coeffs tol max_iter (i + 1) (fst ?ab) (snd ?ab) ?c)"
  have unf: "snd (bisect_loop coeffs tol max_iter i a b c) = row_at coeffs i a b c # ?rest"
    using step.hyps by (simp add: loop_step Let_def)
  show ?case
  proof (cases "?rest = []")
    case True
    then have "max_iter < i + 1" by (simp add: rows_empty_iff)
    with step.hyps True show ?thesis unfolding unf by simp
  next
    case False
    with step.prems have "\<not> converged tol (last ?rest)" unfolding unf by simp
    from step.IH[OF False this] False show ?thesis unfolding unf by simp
  qed
qed









lemma run_loop:
  assumes "bisection_method coeffs a b tol max_iter = ((Some c, Some i), out)"
  shows "evaluate_poly coeffs a * evaluate_poly coeffs b < 0"
    and "out = Table (snd (bisect_loop coeffs tol max_iter 1 a b a))"
    and "(c, i) = fst (bisect_loop coeffs tol max_iter 1 a b a)"
  using assms by (auto simp: bisection_method_def Let_def split: if_splits)



subsection \<open>A whole call\<close>

lemma last_at: "Suc k = length rs \<Longrightarrow> last rs = rs ! k"
proof -
  assume h: "Suc k = length rs"
  then have "rs \<noteq> []" by auto
  then have "last rs = rs ! (length rs - 1)" by (rule last_conv_nth)
  also from h have "length rs - 1 = k" by arith
  finally show ?thesis .
qed

lemma run_last:
  assumes "bisection_method coeffs a b tol max_iter = ((Some c, Some i), Table rs)"
    and "1 \<le> max_iter"
  shows "rs \<noteq> []" and "c = row_c (last rs)" and "i = row_i (last rs)"
    and "i = int (length rs)" and "i \<le> max_iter"
proof -
  let ?L = "bisect_loop coeffs tol max_iter 1 a b a"
  from run_loop[OF assms(1)] have rs: "rs = snd ?L" and ci: "(c, i) = fst ?L" by simp_all
  show ne: "rs \<noteq> []" using assms(2) by (simp add: rs rows_empty_iff)
  from ne obtain n where n: "Suc n = length rs" by (cases rs) auto
  then have "row_i (rs ! n) = 1 + int n"
    using rows_index[of n coeffs tol max_iter 1 a b a] by (simp add: rs)
  with n have idx: "row_i (last rs) = int (length rs)"
    by (simp add: last_at[OF n] flip: n)
  have ex: "\<not> converged tol (last rs) \<Longrightarrow> row_i (last rs) = max_iter"
    using ne rows_exhausted[of coeffs tol max_iter 1 a b a] by (simp add: rs)
  from ci ne show "c = row_c (last rs)"
    by (simp add: loop_result[of coeffs tol max_iter 1 a b a] rs[symmetric] prod_eq_iff)
  from ci ne ex show i: "i = row_i (last rs)"
    by (simp add: loop_result[of coeffs tol max_iter 1 a b a] rs[symmetric] prod_eq_iff)
  from i idx show "i = int (length rs)" by simp
  with rows_length[of coeffs tol max_iter 1 a b a] assms(2) show "i \<le> max_iter"
    by (simp add: rs)
qed

lemma run_converged_last:
  assumes "bisection_method coeffs a b tol max_iter = ((Some c, Some i), Table rs)"
    and "k < length rs" and "converged tol (rs ! k)"
  shows "Suc k = length rs"
proof (rule ccontr)
  assume "Suc k \<noteq> length rs"
  with assms(2) have "Suc k < length rs" by simp
  then have "\<not> converged tol (rs ! k)"
    using run_loop(2)[OF assms(1)] rows_not_converged[of k coeffs tol max_iter 1 a b a] by simp
  with assms(3) show False by simp
qed

subsection \<open>Some calls, evaluated\<close>

text \<open>
  The polynomials \<open>x - 1\<close>, \<open>x^2 - 4\<close> (scenarios 1, 2 and 4 of the specification)
  and \<open>100 x - 30\<close>, and the complete result of the solver on them: the returned pair
  and every printed row.
\<close>

lemma ev_linear: "evaluate_poly [1, -1] x = x - 1"
  by (simp add: evaluate_poly_def polyval_def)

lemma ev_square: "evaluate_poly [1, 0, -4] x = x * x - 4"
  by (simp add: evaluate_poly_def polyval_def)


lemma run_linear:
  "bisection_method [1, -1] 0 2 (1 / 1000000) 50 =
     ((Some 1, Some 1),
      Table [\<lparr>row_i = 1, row_a = 0, row_b = 2, row_c = 1, row_fc = 0, row_error = 2\<rparr>])"
  by (simp add: bisection_method_def bisect_loop.simps converged_def narrow_def ev_linear Let_def)

lemma run_square:
  "bisection_method [1, 0, -4] 0 3 (1 / 10000) 2 =
     ((Some (9 / 4), Some 2),
      Table [\<lparr>row_i = 1, row_a = 0, row_b = 3, row_c = 3 / 2, row_fc = - (7 / 4), row_error = 3\<rparr>,
             \<lparr>row_i = 2, row_a = 3 / 2, row_b = 3, row_c = 9 / 4, row_fc = 17 / 16, row_error = 3 / 4\<rparr>])"
  by (simp add: bisection_method_def bisect_loop.simps converged_def narrow_def ev_square Let_def)

lemma run_square3:
  "bisection_method [1, 0, -4] 0 3 (1 / 10000) 3 =
     ((Some (15 / 8), Some 3),
      Table [\<lparr>row_i = 1, row_a = 0, row_b = 3, row_c = 3 / 2, row_fc = - (7 / 4), row_error = 3\<rparr>,
             \<lparr>row_i = 2, row_a = 3 / 2, row_b = 3, row_c = 9 / 4, row_fc = 17 / 16, row_error = 3 / 4\<rparr>,
             \<lparr>row_i = 3, row_a = 3 / 2, row_b = 9 / 4, row_c = 15 / 8, row_fc = - (31 / 64), row_error = 3 / 8\<rparr>])"
  by (simp add: bisection_method_def bisect_loop.simps converged_def narrow_def ev_square Let_def)

lemma run_zero_tol:
  "bisection_method [1, -1] 0 2 0 2 =
     ((Some (3 / 2), Some 2),
      Table [\<lparr>row_i = 1, row_a = 0, row_b = 2, row_c = 1, row_fc = 0, row_error = 2\<rparr>,
             \<lparr>row_i = 2, row_a = 1, row_b = 2, row_c = 3 / 2, row_fc = 1 / 2, row_error = 1 / 2\<rparr>])"
  by (simp add: bisection_method_def bisect_loop.simps converged_def narrow_def ev_linear Let_def)


section \<open>The claims\<close>

subsection \<open>Termination and the returned value\<close>




subsection \<open>The convergence test\<close>



subsection \<open>The bracketing check\<close>

text \<open>
  Claim C3. When \<open>f(a) * f(b) \<ge> 0\<close> the solver returns \<open>(None, None)\<close>, prints the
  error message with both function values and no table row: the loop is not entered.
  The witness is scenario 3 of the specification, \<open>x + 1\<close> on \<open>[0, 5]\<close>, where
  \<open>f(0) = 1\<close> and \<open>f(5) = 6\<close>.
\<close>

theorem bracket_failure_no_result:
  assumes "evaluate_poly coeffs a * evaluate_poly coeffs b \<ge> 0"
  shows "bisection_method coeffs a b tol max_iter =
           ((None, None), Bracket_failure (evaluate_poly coeffs a) (evaluate_poly coeffs b)) \<and>
         rows (snd (bisection_method coeffs a b tol max_iter)) = []"
  using assms by (simp add: bisection_method_def Let_def)

theorem bracket_failure_no_result_witness:
  "evaluate_poly [1, 1] 0 = 1 \<and> evaluate_poly [1, 1] 5 = 6 \<and>
   evaluate_poly [1, 1] 0 * evaluate_poly [1, 1] 5 \<ge> 0 \<and>
   bisection_method [1, 1] 0 5 (1 / 10000) 50 = ((None, None), Bracket_failure 1 6) \<and>
   rows (snd (bisection_method [1, 1] 0 5 (1 / 10000) 50)) = []"
proof -
  have v: "evaluate_poly [1, 1] 0 = 1" "evaluate_poly [1, 1] 5 = 6"
    by (simp_all add: evaluate_poly_def polyval_def)
  then have h: "evaluate_poly [1, 1] 0 * evaluate_poly [1, 1] 5 \<ge> 0" by simp
  from bracket_failure_no_result [OF h, of "1 / 10000" 50] v h show ?thesis by simp
qed

subsection \<open>Narrowing\<close>

text \<open>
  Claim C4. An iteration that fails the convergence test goes on to the next iteration
  with \<open>b = c\<close> when \<open>f(a) * f(c) < 0\<close>, where \<open>f(a)\<close> is evaluated at the current
  \<open>a\<close>, and with \<open>a = c\<close> otherwise. The first part states it for one pass of the loop
  from any values of the loop variables, the last pass before exhaustion included; the
  second part reads it off two consecutive rows of a call. A product equal to zero takes the
  second branch. The witness has both branches: \<open>x^2 - 4\<close> narrows to \<open>[3/2, 9/4]\<close> at
  iteration 2, and with \<open>tol = 0\<close> the polynomial \<open>x - 1\<close> reaches \<open>f(0) * f(1) = 0\<close>
  and continues on \<open>[1, 2]\<close>.
\<close>

theorem narrowing_strict_sign_test:
  "(i \<le> max_iter \<and> \<not> converged tol (row_at coeffs i a b c) \<longrightarrow>
      bisect_loop coeffs tol max_iter i a b c =
        (let c' = (a + b) / 2;
             left = evaluate_poly coeffs a * evaluate_poly coeffs c' < 0;
             rest = bisect_loop coeffs tol max_iter (i + 1)
                      (if left then a else c') (if left then c' else b) c'
         in (fst rest, row_at coeffs i a b c # snd rest))) \<and>
   (bisection_method coeffs a0 b0 tol max_iter = ((Some c_ret, Some i_ret), Table rs) \<and>
    Suc k < length rs \<longrightarrow>
      \<not> converged tol (rs ! k) \<and>
      (row_a (rs ! Suc k), row_b (rs ! Suc k)) =
        (if evaluate_poly coeffs (row_a (rs ! k)) * evaluate_poly coeffs (row_c (rs ! k)) < 0
         then (row_a (rs ! k), row_c (rs ! k)) else (row_c (rs ! k), row_b (rs ! k))) \<and>
      (evaluate_poly coeffs (row_a (rs ! k)) * evaluate_poly coeffs (row_c (rs ! k)) = 0 \<longrightarrow>
         row_a (rs ! Suc k) = row_c (rs ! k) \<and> row_b (rs ! Suc k) = row_b (rs ! k)))"
proof (intro conjI impI)
  assume "i \<le> max_iter \<and> \<not> converged tol (row_at coeffs i a b c)"
  then show "bisect_loop coeffs tol max_iter i a b c =
        (let c' = (a + b) / 2;
             left = evaluate_poly coeffs a * evaluate_poly coeffs c' < 0;
             rest = bisect_loop coeffs tol max_iter (i + 1)
                      (if left then a else c') (if left then c' else b) c'
         in (fst rest, row_at coeffs i a b c # snd rest))"
    by (simp add: loop_step narrow_def Let_def)
next
  assume h: "bisection_method coeffs a0 b0 tol max_iter = ((Some c_ret, Some i_ret), Table rs) \<and>
    Suc k < length rs"
  then have run: "bisection_method coeffs a0 b0 tol max_iter = ((Some c_ret, Some i_ret), Table rs)"
    by simp
  from run_loop(2)[OF run] have rs: "rs = snd (bisect_loop coeffs tol max_iter 1 a0 b0 a0)"
    by simp
  from h show "\<not> converged tol (rs ! k)"
    using rows_not_converged[of k coeffs tol max_iter 1 a0 b0 a0] by (simp add: rs)
  from h have "row_fc (rs ! k) = evaluate_poly coeffs (row_c (rs ! k))"
    using rows_mid[of "rs ! k" coeffs tol max_iter 1 a0 b0 a0] by (simp add: rs)
  with h rows_next[of k coeffs tol max_iter 1 a0 b0 a0]
  show nx: "(row_a (rs ! Suc k), row_b (rs ! Suc k)) =
        (if evaluate_poly coeffs (row_a (rs ! k)) * evaluate_poly coeffs (row_c (rs ! k)) < 0
         then (row_a (rs ! k), row_c (rs ! k)) else (row_c (rs ! k), row_b (rs ! k)))"
    by (simp add: rs narrow_def)
  assume "evaluate_poly coeffs (row_a (rs ! k)) * evaluate_poly coeffs (row_c (rs ! k)) = 0"
  with nx show "row_a (rs ! Suc k) = row_c (rs ! k)" "row_b (rs ! Suc k) = row_b (rs ! k)"
    by simp_all
qed

theorem narrowing_strict_sign_test_witness:
  "bisection_method [1, 0, -4] 0 3 (1 / 10000) 3 =
     ((Some (15 / 8), Some 3),
      Table [\<lparr>row_i = 1, row_a = 0, row_b = 3, row_c = 3 / 2, row_fc = - (7 / 4), row_error = 3\<rparr>,
             \<lparr>row_i = 2, row_a = 3 / 2, row_b = 3, row_c = 9 / 4, row_fc = 17 / 16, row_error = 3 / 4\<rparr>,
             \<lparr>row_i = 3, row_a = 3 / 2, row_b = 9 / 4, row_c = 15 / 8, row_fc = - (31 / 64), row_error = 3 / 8\<rparr>]) \<and>
   evaluate_poly [1, 0, -4] (3 / 2) * evaluate_poly [1, 0, -4] (9 / 4) < 0 \<and>
   bisection_method [1, -1] 0 2 0 2 =
     ((Some (3 / 2), Some 2),
      Table [\<lparr>row_i = 1, row_a = 0, row_b = 2, row_c = 1, row_fc = 0, row_error = 2\<rparr>,
             \<lparr>row_i = 2, row_a = 1, row_b = 2, row_c = 3 / 2, row_fc = 1 / 2, row_error = 1 / 2\<rparr>]) \<and>
   evaluate_poly [1, -1] 0 * evaluate_poly [1, -1] 1 = 0 \<and>
   \<not> converged 0 (row_at [1, -1] 1 0 2 0) \<and>
   bisect_loop [1, -1] 0 2 1 0 2 0 =
     (fst (bisect_loop [1, -1] 0 2 2 1 2 1), row_at [1, -1] 1 0 2 0 # snd (bisect_loop [1, -1] 0 2 2 1 2 1))"
proof -
  have left: "evaluate_poly [1, 0, -4] (3 / 2) * evaluate_poly [1, 0, -4] (9 / 4) < 0"
    and zero: "evaluate_poly [1, -1] 0 * evaluate_poly [1, -1] 1 = 0"
    by (simp_all add: ev_square ev_linear)
  have nc: "(1::int) \<le> 2 \<and> \<not> converged 0 (row_at [1, -1] 1 0 2 0)"
    by (simp add: converged_def ev_linear)
  from narrowing_strict_sign_test [where i = 1 and max_iter = 2 and tol = 0 and coeffs = "[1, -1]"
      and a = 0 and b = 2 and c = 0 and ?a0.0 = 0 and ?b0.0 = 2 and c_ret = "3 / 2" and i_ret = 2
      and k = 0
      and rs = "[\<lparr>row_i = 1, row_a = 0, row_b = 2, row_c = 1, row_fc = 0, row_error = 2\<rparr>,
             \<lparr>row_i = 2, row_a = 1, row_b = 2, row_c = 3 / 2, row_fc = 1 / 2, row_error = 1 / 2\<rparr>]"]
    nc zero run_zero_tol
  have step: "bisect_loop [1, -1] 0 2 1 0 2 0 =
     (fst (bisect_loop [1, -1] 0 2 2 1 2 1), row_at [1, -1] 1 0 2 0 # snd (bisect_loop [1, -1] 0 2 2 1 2 1))"
    by (simp add: Let_def ev_linear)
  from narrowing_strict_sign_test [where tol = "1 / 10000" and max_iter = 3
      and coeffs = "[1, 0, -4]" and ?a0.0 = 0 and ?b0.0 = 3 and c_ret = "15 / 8" and i_ret = 3
      and k = 1
      and rs = "[\<lparr>row_i = 1, row_a = 0, row_b = 3, row_c = 3 / 2, row_fc = - (7 / 4), row_error = 3\<rparr>,
             \<lparr>row_i = 2, row_a = 3 / 2, row_b = 3, row_c = 9 / 4, row_fc = 17 / 16, row_error = 3 / 4\<rparr>,
             \<lparr>row_i = 3, row_a = 3 / 2, row_b = 9 / 4, row_c = 15 / 8, row_fc = - (31 / 64), row_error = 3 / 8\<rparr>]"]
    step left zero nc run_square3 run_zero_tol
  show ?thesis by simp
qed

subsection \<open>Exhaustion\<close>

text \<open>
  Claim C5. When no iteration passes the convergence test, the solver returns
  \<open>(c, max_iter)\<close>; for \<open>max_iter \<ge> 1\<close> the loop has run \<open>max_iter\<close> times and \<open>c\<close>
  is the midpoint of the last row. (For \<open>max_iter < 1\<close> there is no iteration and the
  value returned is the initial \<open>c = a\<close>.) The witness is scenario 4: \<open>x^2 - 4\<close> on
  \<open>[0, 3]\<close> with \<open>max_iter = 2\<close> returns the second midpoint \<open>9/4\<close> and the count 2.
\<close>

theorem exhaustion_returns_last_midpoint:
  assumes "bisection_method coeffs a b tol max_iter = ((Some c, Some i), Table rs)"
    and "\<forall>r \<in> set rs. \<not> converged tol r"
  shows "i = max_iter \<and>
         (1 \<le> max_iter \<longrightarrow> int (length rs) = max_iter \<and> c = row_c (last rs)) \<and>
         (max_iter < 1 \<longrightarrow> rs = [] \<and> c = a)"
proof -
  let ?L = "bisect_loop coeffs tol max_iter 1 a b a"
  from run_loop[OF assms(1)] have rs: "rs = snd ?L" and ci: "(c, i) = fst ?L" by simp_all
  have empty: "rs = [] \<longleftrightarrow> max_iter < 1" unfolding rs by (rule rows_empty_iff)
  show ?thesis
  proof (cases "rs = []")
    case True
    with ci rs empty show ?thesis by (simp add: loop_result)
  next
    case False
    then have nc: "\<not> converged tol (last rs)" using assms(2) by simp
    from False nc have last_i: "row_i (last rs) = max_iter"
      unfolding rs by (rule rows_exhausted)
    have "row_i (last rs) = 1 + int (length rs - 1)"
      using False rows_index[of "length rs - 1" coeffs tol max_iter 1 a b a]
      by (simp add: rs last_conv_nth)
    with last_i False have len: "int (length rs) = max_iter" by (cases rs) simp_all
    from ci False nc have "c = row_c (last rs)" "i = max_iter"
      by (simp_all add: loop_result[of coeffs tol max_iter 1 a b a] rs[symmetric] prod_eq_iff)
    with len empty False show ?thesis by simp
  qed
qed

theorem exhaustion_returns_last_midpoint_witness:
  "bisection_method [1, 0, -4] 0 3 (1 / 10000) 2 =
     ((Some (9 / 4), Some 2),
      Table [\<lparr>row_i = 1, row_a = 0, row_b = 3, row_c = 3 / 2, row_fc = - (7 / 4), row_error = 3\<rparr>,
             \<lparr>row_i = 2, row_a = 3 / 2, row_b = 3, row_c = 9 / 4, row_fc = 17 / 16, row_error = 3 / 4\<rparr>]) \<and>
   \<not> converged (1 / 10000)
      \<lparr>row_i = 1, row_a = 0, row_b = 3, row_c = 3 / 2, row_fc = - (7 / 4), row_error = 3\<rparr> \<and>
   \<not> converged (1 / 10000)
      \<lparr>row_i = 2, row_a = 3 / 2, row_b = 3, row_c = 9 / 4, row_fc = 17 / 16, row_error = 3 / 4\<rparr> \<and>
   (2::int) = 2 \<and> (1::int) \<le> 2 \<and>
   (9 / 4 :: real) = row_c (last [\<lparr>row_i = 1, row_a = 0, row_b = 3, row_c = 3 / 2, row_fc = - (7 / 4), row_error = 3\<rparr>,
             \<lparr>row_i = 2, row_a = 3 / 2, row_b = 3, row_c = 9 / 4, row_fc = 17 / 16, row_error = 3 / 4\<rparr>])"
proof -
  let ?rs = "[\<lparr>row_i = 1, row_a = 0, row_b = 3, row_c = 3 / 2, row_fc = - (7 / 4), row_error = 3\<rparr>,
             \<lparr>row_i = 2, row_a = 3 / 2, row_b = 3, row_c = 9 / 4, row_fc = 17 / 16, row_error = (3 / 4 :: real)\<rparr>]"
  have nc: "\<forall>r \<in> set ?rs. \<not> converged (1 / 10000) r"
    by (simp add: converged_def)
  from exhaustion_returns_last_midpoint [OF run_square nc] run_square nc show ?thesis by simp
qed

subsection \<open>Invariants of the interval\<close>






subsection \<open>Exact zeros\<close>

text \<open>
  Claim C10. With \<open>tol > 0\<close>, an iteration whose midpoint has \<open>f(c) = 0\<close> returns
  \<open>(c, i)\<close> there, so the narrowing step is only reached with \<open>f(c) \<noteq> 0\<close>. In a call,
  a row with \<open>fc = 0\<close> passes the convergence test, is the last row, and its midpoint and
  index are the returned pair.
\<close>

theorem zero_midpoint_returns_before_narrowing:
  assumes "0 < tol"
  shows "(i \<le> max_iter \<and> evaluate_poly coeffs ((a + b) / 2) = 0 \<longrightarrow>
            bisect_loop coeffs tol max_iter i a b c = (((a + b) / 2, i), [row_at coeffs i a b c])) \<and>
         (i \<le> max_iter \<and> \<not> converged tol (row_at coeffs i a b c) \<longrightarrow>
            evaluate_poly coeffs ((a + b) / 2) \<noteq> 0) \<and>
         (bisection_method coeffs a0 b0 tol max_iter = ((Some c_ret, Some i_ret), Table rs) \<and>
          k < length rs \<and> row_fc (rs ! k) = 0 \<longrightarrow>
            converged tol (rs ! k) \<and> Suc k = length rs \<and>
            c_ret = row_c (rs ! k) \<and> i_ret = row_i (rs ! k))"
proof (intro conjI impI)
  assume h: "i \<le> max_iter \<and> evaluate_poly coeffs ((a + b) / 2) = 0"
  with assms have "converged tol (row_at coeffs i a b c)" by (simp add: converged_def)
  with h show "bisect_loop coeffs tol max_iter i a b c = (((a + b) / 2, i), [row_at coeffs i a b c])"
    by (simp add: loop_conv)
next
  assume "i \<le> max_iter \<and> \<not> converged tol (row_at coeffs i a b c)"
  with assms show "evaluate_poly coeffs ((a + b) / 2) \<noteq> 0" by (auto simp: converged_def)
next
  assume h: "bisection_method coeffs a0 b0 tol max_iter = ((Some c_ret, Some i_ret), Table rs) \<and>
          k < length rs \<and> row_fc (rs ! k) = 0"
  then have run: "bisection_method coeffs a0 b0 tol max_iter = ((Some c_ret, Some i_ret), Table rs)"
    and k: "k < length rs" by simp_all
  from h assms show cv: "converged tol (rs ! k)" by (simp add: converged_def)
  from run k cv show len: "Suc k = length rs" by (rule run_converged_last)
  from run_loop(2)[OF run] k have "1 \<le> max_iter"
    using rows_empty_iff[of coeffs tol max_iter 1 a0 b0 a0] by auto
  note last = run_last[OF run this]
  from last(2,3) len show "c_ret = row_c (rs ! k)" "i_ret = row_i (rs ! k)"
    by (simp_all add: last_at)
qed

theorem zero_midpoint_returns_before_narrowing_witness:
  "(0::real) < 1 / 1000000 \<and> (1::int) \<le> 50 \<and> evaluate_poly [1, -1] ((0 + 2) / 2) = 0 \<and>
   bisect_loop [1, -1] (1 / 1000000) 50 1 0 2 0 = (((0 + 2) / 2, 1), [row_at [1, -1] 1 0 2 0]) \<and>
   bisection_method [1, -1] 0 2 (1 / 1000000) 50 =
     ((Some 1, Some 1),
      Table [\<lparr>row_i = 1, row_a = 0, row_b = 2, row_c = 1, row_fc = 0, row_error = 2\<rparr>]) \<and>
   converged (1 / 1000000) \<lparr>row_i = 1, row_a = 0, row_b = 2, row_c = 1, row_fc = 0, row_error = 2\<rparr> \<and>
   (1::int) \<le> 2 \<and> \<not> converged (1 / 10000) (row_at [1, 0, -4] 1 0 3 0) \<and>
   evaluate_poly [1, 0, -4] ((0 + 3) / 2) \<noteq> 0"
proof -
  have t: "(0::real) < 1 / 1000000" and t': "(0::real) < 1 / 10000" by simp_all
  have z: "(1::int) \<le> 50 \<and> evaluate_poly [1, -1] ((0 + 2) / 2) = 0" by (simp add: ev_linear)
  have n: "(1::int) \<le> 2 \<and> \<not> converged (1 / 10000) (row_at [1, 0, -4] 1 0 3 0)"
    by (simp add: converged_def ev_square)
  from zero_midpoint_returns_before_narrowing [OF t, where i = 1 and max_iter = 50
      and coeffs = "[1, -1]" and a = 0 and b = 2 and c = 0 and ?a0.0 = 0 and ?b0.0 = 2
      and c_ret = 1 and i_ret = 1 and k = 0
      and rs = "[\<lparr>row_i = 1, row_a = 0, row_b = 2, row_c = 1, row_fc = 0, row_error = 2\<rparr>]"]
    zero_midpoint_returns_before_narrowing [OF t', where i = 1 and max_iter = 2
      and coeffs = "[1, 0, -4]" and a = 0 and b = 3 and c = 0]
    t z n run_linear
  show ?thesis by simp
qed

subsection \<open>The evaluator\<close>


text \<open>
  Claim C8 (two evaluations at the same arguments agree) has no theorem here:
  \<open>evaluate_poly\<close> is a function of the logic, so the statement is an instance of
  reflexivity whatever the definition is. That the Python function has no hidden state is
  read off the source (its body is the one call of \<open>np.polyval\<close>), not proved.
\<close>

end
